theory Spec2Isabelle
  imports Main
begin

section \<open>JSON values, Python exceptions, HTTP outcomes\<close>

text \<open>
  The handlers of \<^verbatim>\<open>backend/src/api.py\<close> read a JSON body and answer with a JSON document
  and a status code. A JSON object is kept as the list of its members, in the order in
  which they are written, each key once, as a parsed object has them; Python's \<^verbatim>\<open>None\<close> is
  \<open>JNull\<close>.
\<close>

datatype json =
    JNull
  | JBool bool
  | JInt int
  | JStr string
  | JArr "json list"
  | JObj "(string \<times> json) list"

datatype exn =
    AttributeError
  | TypeError
  | KeyError
  | IntegrityError
  | OperationalError
  | MultipleResultsFound

text \<open>
  What a request ends in: a response (body before \<^verbatim>\<open>json.dumps\<close>/\<^verbatim>\<open>jsonify\<close>, status
  code), or an exception that no handler of the module catches.
\<close>

datatype outcome = Response json nat | Raised exn

fun status_of :: "outcome \<Rightarrow> nat option" where
  "status_of (Response b c) = Some c"
| "status_of (Raised e) = None"

fun body_of :: "outcome \<Rightarrow> json option" where
  "body_of (Response b c) = Some b"
| "body_of (Raised e) = None"

text \<open>
  The body of a request as it arrives: text that parses to a JSON value, or text that
  does not. \<^verbatim>\<open>request.get_json()\<close> returns the value, and on text that does not parse it
  aborts with 400, which \<^verbatim>\<open>@app.errorhandler(400)\<close> answers.
\<close>

datatype body = Parsed json | Unparsable

fun get_json :: "body \<Rightarrow> json option" where
  "get_json (Parsed v) = Some v"
| "get_json Unparsable = None"

text \<open>
  \<^verbatim>\<open>data.get(key)\<close>: on a dict the member or \<^verbatim>\<open>None\<close>; any other parsed body (a list, a
  string, a number, \<^verbatim>\<open>None\<close>) has no \<^verbatim>\<open>get\<close> and raises \<^verbatim>\<open>AttributeError\<close>.
\<close>

fun dict_get :: "json \<Rightarrow> string \<Rightarrow> exn + json" where
  "dict_get (JObj kvs) k = Inr (case map_of kvs k of None \<Rightarrow> JNull | Some v \<Rightarrow> v)"
| "dict_get _ k = Inl AttributeError"

section \<open>The row store\<close>

text \<open>
  A row of the drinks table. The recipe column holds the text written by
  \<^verbatim>\<open>json.dumps(recipe)\<close>; the model keeps the JSON value that this text denotes
  (\<^verbatim>\<open>json.loads\<close> of it), so a recipe that was never sent is the value \<open>JNull\<close>, whose
  text is \<^verbatim>\<open>null\<close>.
\<close>

record drink =
  id_pk :: nat
  title :: json
  recipe :: json

text \<open>
  The table and whether the database answers. When it does not, every call into the
  store raises.
\<close>

record store =
  rows :: "drink list"
  available :: bool

text \<open>
  The routes \<^verbatim>\<open>/drinks/<drink_id>\<close> have no converter, so \<^verbatim>\<open>drink_id\<close> reaches the handlers
  as the text of the path segment, and \<^verbatim>\<open>filter_by(id=drink_id)\<close> hands that text to the
  store.

  Modelled from the spec: the store's lookup by id, of \<^verbatim>\<open>database/models.py\<close>, which is
  not among the sources. The key is numeric, so a segment of decimal digits denotes the
  number it spells, and any other text matches no key.
\<close>

text \<open>The value of a decimal digit, from the code of the character.\<close>

definition digit_of :: "char \<Rightarrow> nat option" where
  "digit_of c =
     (let n = of_char c :: nat in if 48 \<le> n \<and> n \<le> 57 then Some (n - 48) else None)"

fun digits_value :: "nat \<Rightarrow> string \<Rightarrow> nat option" where
  "digits_value acc [] = Some acc"
| "digits_value acc (c # cs) =
     (case digit_of c of None \<Rightarrow> None | Some d \<Rightarrow> digits_value (10 * acc + d) cs)"

definition path_key :: "string \<Rightarrow> nat option" where
  "path_key seg = (if seg = [] then None else digits_value 0 seg)"

text \<open>
  Modelled from the spec: the store of \<^verbatim>\<open>database/models.py\<close> (the \<^verbatim>\<open>Drink\<close> model with its
  \<^verbatim>\<open>query\<close>, \<^verbatim>\<open>insert\<close>, \<^verbatim>\<open>update\<close> and \<^verbatim>\<open>delete\<close>), which is not among the sources. The spec
  gives it lookup by id, full scan, insert, update and delete; the id is assigned by the
  store on creation; the title must be unique across all resources, which the store
  enforces; a failed commit leaves the store unchanged.
\<close>

definition new_id :: "drink list \<Rightarrow> nat" where
  "new_id rs = Suc (foldr max (map id_pk rs) 0)"

definition query_all :: "store \<Rightarrow> exn + drink list" where
  "query_all s = (if available s then Inr (rows s) else Inl OperationalError)"

text \<open>\<^verbatim>\<open>Drink.query.filter_by(id=drink_id).one_or_none()\<close>\<close>

definition query_by_id :: "store \<Rightarrow> string \<Rightarrow> exn + drink option" where
  "query_by_id s drink_id =
     (if available s then
        (case filter (\<lambda>d. path_key drink_id = Some (id_pk d)) (rows s) of
           [] \<Rightarrow> Inr None
         | [d] \<Rightarrow> Inr (Some d)
         | _ \<Rightarrow> Inl MultipleResultsFound)
      else Inl OperationalError)"

definition insert_drink :: "store \<Rightarrow> json \<Rightarrow> json \<Rightarrow> exn + store" where
  "insert_drink s t r =
     (if \<not> available s then Inl OperationalError
      else if t \<in> set (map title (rows s)) then Inl IntegrityError
      else Inr (s\<lparr>rows := rows s @ [\<lparr>id_pk = new_id (rows s), title = t, recipe = r\<rparr>]\<rparr>))"

definition update_row :: "store \<Rightarrow> drink \<Rightarrow> exn + store" where
  "update_row s d =
     (if \<not> available s then Inl OperationalError
      else if title d \<in> set (map title (filter (\<lambda>r. id_pk r \<noteq> id_pk d) (rows s)))
        then Inl IntegrityError
      else Inr (s\<lparr>rows := map (\<lambda>r. if id_pk r = id_pk d then d else r) (rows s)\<rparr>))"

definition delete_row :: "store \<Rightarrow> drink \<Rightarrow> exn + store" where
  "delete_row s d =
     (if \<not> available s then Inl OperationalError
      else Inr (s\<lparr>rows := filter (\<lambda>r. id_pk r \<noteq> id_pk d) (rows s)\<rparr>))"

section \<open>The two projections\<close>

text \<open>
  Modelled from the spec: \<^verbatim>\<open>Drink.long()\<close> and \<^verbatim>\<open>Drink.short()\<close> of \<^verbatim>\<open>database/models.py\<close>,
  which is not among the sources. The spec gives the detailed form as
  \<^verbatim>\<open>{id, title, recipe: [{name, color, parts}]}\<close>, the recipe parsed back from its stored
  text with the full ingredient data, and the brief form as
  \<^verbatim>\<open>{id, title, recipe: [{color, parts}]}\<close>: of each entry of the parsed recipe the colour
  and the parts, and nothing else. Where the parsed recipe is not a sequence of mappings
  with these two members, the brief form is what Python makes of looping over the value
  and subscripting its elements.
\<close>

definition long :: "drink \<Rightarrow> json" where
  "long d = JObj [(''id'', JInt (int (id_pk d))), (''title'', title d), (''recipe'', recipe d)]"

text \<open>\<^verbatim>\<open>for r in value\<close>: the elements of a list, the keys of a dict, the characters of a string.\<close>

fun iterate :: "json \<Rightarrow> exn + json list" where
  "iterate (JArr es) = Inr es"
| "iterate (JObj kvs) = Inr (map (\<lambda>kv. JStr (fst kv)) kvs)"
| "iterate (JStr cs) = Inr (map (\<lambda>c. JStr [c]) cs)"
| "iterate _ = Inl TypeError"

text \<open>\<^verbatim>\<open>r[key]\<close> with a string key.\<close>

fun subscript :: "json \<Rightarrow> string \<Rightarrow> exn + json" where
  "subscript (JObj kvs) k = (case map_of kvs k of None \<Rightarrow> Inl KeyError | Some v \<Rightarrow> Inr v)"
| "subscript _ k = Inl TypeError"

definition short_entry :: "json \<Rightarrow> exn + json" where
  "short_entry e =
     (case subscript e ''color'' of
        Inl x \<Rightarrow> Inl x
      | Inr c \<Rightarrow>
          (case subscript e ''parts'' of
             Inl x \<Rightarrow> Inl x
           | Inr p \<Rightarrow> Inr (JObj [(''color'', c), (''parts'', p)])))"

fun short_entries :: "json list \<Rightarrow> exn + json list" where
  "short_entries [] = Inr []"
| "short_entries (e # es) =
     (case short_entry e of
        Inl x \<Rightarrow> Inl x
      | Inr b \<Rightarrow> (case short_entries es of Inl x \<Rightarrow> Inl x | Inr bs \<Rightarrow> Inr (b # bs)))"

definition short_recipe :: "json \<Rightarrow> exn + json" where
  "short_recipe v =
     (case iterate v of
        Inl x \<Rightarrow> Inl x
      | Inr es \<Rightarrow> (case short_entries es of Inl x \<Rightarrow> Inl x | Inr bs \<Rightarrow> Inr (JArr bs)))"

definition short :: "drink \<Rightarrow> exn + json" where
  "short d =
     (case short_recipe (recipe d) of
        Inl x \<Rightarrow> Inl x
      | Inr r \<Rightarrow> Inr (JObj [(''id'', JInt (int (id_pk d))), (''title'', title d), (''recipe'', r)]))"

text \<open>\<^verbatim>\<open>[drink.short() for drink in drinks]\<close>: the first projection that raises ends the loop.\<close>

fun short_all :: "drink list \<Rightarrow> exn + json list" where
  "short_all [] = Inr []"
| "short_all (d # ds) =
     (case short d of
        Inl x \<Rightarrow> Inl x
      | Inr b \<Rightarrow> (case short_all ds of Inl x \<Rightarrow> Inl x | Inr bs \<Rightarrow> Inr (b # bs)))"

section \<open>Response bodies\<close>

definition success_drinks :: "json list \<Rightarrow> json" where
  "success_drinks ds = JObj [(''success'', JBool True), (''drinks'', JArr ds)]"

text \<open>\<^verbatim>\<open>{"success": True, "delete": drink_id}\<close>, the path segment as it came.\<close>

definition success_delete :: "string \<Rightarrow> json" where
  "success_delete drink_id = JObj [(''success'', JBool True), (''delete'', JStr drink_id)]"

text \<open>The body of the two list handlers' \<^verbatim>\<open>except\<close> branch.\<close>

definition error_occurred :: json where
  "error_occurred = JObj [(''success'', JBool False), (''error'', JStr ''An error occurred'')]"

text \<open>The body of the \<^verbatim>\<open>except\<close> branch of create, update and delete, spelled as there.\<close>

definition error_occured :: json where
  "error_occured = JObj [(''success'', JBool False), (''error'', JStr ''An error occured'')]"

text \<open>\<^verbatim>\<open>@app.errorhandler(404)\<close>, which answers \<^verbatim>\<open>abort(404)\<close>.\<close>

definition not_found :: outcome where
  "not_found =
     Response (JObj [(''success'', JBool False), (''error'', JInt 404),
                     (''message'', JStr ''Resource not found'')]) 404"

text \<open>\<^verbatim>\<open>@app.errorhandler(400)\<close>, which answers a body that does not parse.\<close>

definition bad_request :: outcome where
  "bad_request =
     Response (JObj [(''success'', JBool False), (''error'', JInt 400),
                     (''message'', JStr ''Bad request'')]) 400"

section \<open>The authorization gate\<close>

text \<open>
  Modelled from the spec: \<^verbatim>\<open>AuthError\<close> and \<^verbatim>\<open>requires_auth\<close> of \<^verbatim>\<open>auth/auth.py\<close>, which is
  not among the sources. The spec gives five kinds of failure, each with a status code
  (401 for the header, the key and the verification, 400 for a missing permissions
  claim, 403 for a missing scope), and the body
  \<^verbatim>\<open>{success: false, error: <code>, description: <text>}\<close>. An \<^verbatim>\<open>AuthError\<close> carries the two
  fields that \<^verbatim>\<open>handle_auth_error\<close> reads: \<^verbatim>\<open>error\<close> and \<^verbatim>\<open>status_code\<close>.
\<close>

record auth_error =
  error :: json
  status_code :: nat






text \<open>
  What the key source and the token library find for a token: no key with the token's
  key id, a verification that fails (signature, expiry, audience, issuer, payload), or
  the verified claims, of which the gate reads the permissions claim (absent or a list).
  Both are outside this system, so the gate takes their verdict as a function of the
  token.
\<close>

datatype verification_failure =
    BadSignature
  | Expired
  | WrongAudience
  | WrongIssuer
  | MalformedPayload


type_synonym payload = "string list"








section \<open>The handlers\<close>

text \<open>
  Each handler takes the decoded token that the gate hands over (and ignores it), the
  store, and what the route and the request carry; it returns the store afterwards and
  the outcome. The statements run in the order of the source: in \<^verbatim>\<open>update_drink\<close> the
  lookup, then \<^verbatim>\<open>request.get_json()\<close>, then the test for 404, then the two \<^verbatim>\<open>data.get\<close>,
  and only then the \<^verbatim>\<open>try\<close>.
\<close>

definition get_drinks :: "store \<Rightarrow> store \<times> outcome" where
  "get_drinks s =
     (case query_all s of
        Inl x \<Rightarrow> (s, Response error_occurred 500)
      | Inr drinks \<Rightarrow>
          (case short_all drinks of
             Inl x \<Rightarrow> (s, Response error_occurred 500)
           | Inr bs \<Rightarrow> (s, Response (success_drinks bs) 200)))"

definition get_drink_details :: "payload \<Rightarrow> store \<Rightarrow> store \<times> outcome" where
  "get_drink_details jwt s =
     (case query_all s of
        Inl x \<Rightarrow> (s, Response error_occurred 500)
      | Inr drinks \<Rightarrow> (s, Response (success_drinks (map long drinks)) 200))"

definition post_drink :: "payload \<Rightarrow> store \<Rightarrow> body \<Rightarrow> store \<times> outcome" where
  "post_drink jwt s request =
     (case get_json request of
        None \<Rightarrow> (s, bad_request)
      | Some data \<Rightarrow>
     (case dict_get data ''title'' of
        Inl x \<Rightarrow> (s, Raised x)
      | Inr name \<Rightarrow>
     (case dict_get data ''recipe'' of
        Inl x \<Rightarrow> (s, Raised x)
      | Inr r \<Rightarrow>
     (case insert_drink s name r of
        Inl x \<Rightarrow> (s, Response error_occured 500)
      | Inr s' \<Rightarrow>
     (case query_all s' of
        Inl x \<Rightarrow> (s', Response error_occured 500)
      | Inr drinks \<Rightarrow> (s', Response (success_drinks (map long drinks)) 200))))))"

definition update_drink :: "payload \<Rightarrow> store \<Rightarrow> string \<Rightarrow> body \<Rightarrow> store \<times> outcome" where
  "update_drink jwt s drink_id request =
     (case query_by_id s drink_id of
        Inl x \<Rightarrow> (s, Raised x)
      | Inr found \<Rightarrow>
     (case get_json request of
        None \<Rightarrow> (s, bad_request)
      | Some data \<Rightarrow>
     (case found of
        None \<Rightarrow> (s, not_found)
      | Some d \<Rightarrow>
     (case dict_get data ''title'' of
        Inl x \<Rightarrow> (s, Raised x)
      | Inr t \<Rightarrow>
     (case dict_get data ''recipe'' of
        Inl x \<Rightarrow> (s, Raised x)
      | Inr r \<Rightarrow>
     (case update_row s (d\<lparr>title := t, recipe := r\<rparr>) of
        Inl x \<Rightarrow> (s, Response error_occured 500)
      | Inr s' \<Rightarrow>
     (case query_all s' of
        Inl x \<Rightarrow> (s', Response error_occured 500)
      | Inr drinks \<Rightarrow> (s', Response (success_drinks (map long drinks)) 200))))))))"

definition delete_drink :: "payload \<Rightarrow> store \<Rightarrow> string \<Rightarrow> store \<times> outcome" where
  "delete_drink jwt s drink_id =
     (case query_by_id s drink_id of
        Inl x \<Rightarrow> (s, Raised x)
      | Inr None \<Rightarrow> (s, not_found)
      | Inr (Some d) \<Rightarrow>
     (case delete_row s d of
        Inl x \<Rightarrow> (s, Response error_occured 500)
      | Inr s' \<Rightarrow> (s', Response (success_delete drink_id) 200)))"

section \<open>The gated routes\<close>






section \<open>Notions used by the properties\<close>


text \<open>
  The detailed form with the name removed from every recipe entry, written from the
  spec's sentence about the two projections and not from the brief projection: each
  entry loses its \<^verbatim>\<open>name\<close> member, and nothing else changes.
\<close>

fun drop_name :: "json \<Rightarrow> json" where
  "drop_name (JObj kvs) = JObj (filter (\<lambda>kv. fst kv \<noteq> ''name'') kvs)"
| "drop_name v = v"

fun drop_names :: "json \<Rightarrow> json" where
  "drop_names (JArr es) = JArr (map drop_name es)"
| "drop_names v = v"

fun without_names :: "json \<Rightarrow> json" where
  "without_names (JObj kvs) =
     JObj (map (\<lambda>kv. if fst kv = ''recipe'' then (fst kv, drop_names (snd kv)) else kv) kvs)"
| "without_names v = v"

text \<open>A list response with the names removed from every drink it shows.\<close>

fun names_removed_body :: "json \<Rightarrow> json" where
  "names_removed_body (JObj kvs) =
     JObj (map (\<lambda>kv. if fst kv = ''drinks''
                     then (fst kv, (case snd kv of JArr ds \<Rightarrow> JArr (map without_names ds) | v \<Rightarrow> v))
                     else kv) kvs)"
| "names_removed_body v = v"

fun names_removed :: "outcome \<Rightarrow> outcome" where
  "names_removed (Response b c) = Response (names_removed_body b) c"
| "names_removed (Raised x) = Raised x"

text \<open>
  A recipe of the spec's data model: a sequence of ingredient entries, each a mapping
  whose members other than the name are the colour and then the parts.
\<close>

fun recipe_entry :: "json \<Rightarrow> bool" where
  "recipe_entry (JObj kvs) =
     (map fst (filter (\<lambda>kv. fst kv \<noteq> ''name'') kvs) = [''color'', ''parts''])"
| "recipe_entry _ = False"

fun recipe_sequence :: "json \<Rightarrow> bool" where
  "recipe_sequence (JArr es) = list_all recipe_entry es"
| "recipe_sequence _ = False"

text \<open>The ids that a list response shows: the \<^verbatim>\<open>id\<close> member of each entry of \<^verbatim>\<open>drinks\<close>.\<close>

fun json_member :: "json \<Rightarrow> string \<Rightarrow> json option" where
  "json_member (JObj kvs) k = map_of kvs k"
| "json_member _ k = None"

definition listed_ids :: "outcome \<Rightarrow> json option list" where
  "listed_ids out =
     (case out of
        Response b c \<Rightarrow>
          (case json_member b ''drinks'' of
             Some (JArr ds) \<Rightarrow> map (\<lambda>d. json_member d ''id'') ds
           | _ \<Rightarrow> [])
      | Raised x \<Rightarrow> [])"

text \<open>
  The store states that the handlers can produce from an empty table, the database
  answering or not between requests.
\<close>

inductive reachable :: "store \<Rightarrow> bool" where
  initial: "reachable \<lparr>rows = [], available = a\<rparr>"
| outage: "reachable s \<Longrightarrow> reachable (s\<lparr>available := a\<rparr>)"
| list_brief: "reachable s \<Longrightarrow> reachable (fst (get_drinks s))"
| list_detailed: "reachable s \<Longrightarrow> reachable (fst (get_drink_details jwt s))"
| created: "reachable s \<Longrightarrow> reachable (fst (post_drink jwt s request))"
| updated: "reachable s \<Longrightarrow> reachable (fst (update_drink jwt s drink_id request))"
| deleted: "reachable s \<Longrightarrow> reachable (fst (delete_drink jwt s drink_id))"

text \<open>Keys and titles are held by one row each.\<close>

definition keyed :: "store \<Rightarrow> bool" where
  "keyed s = (distinct (map id_pk (rows s)) \<and> distinct (map title (rows s)))"

section \<open>Example requests and stores\<close>

text \<open>
  The request of the spec's end-to-end property,
  \<^verbatim>\<open>{"title":"Water","recipe":[{"name":"Water","color":"blue","parts":1}]}\<close>, and the stores
  around it.
\<close>

definition water_recipe :: json where
  "water_recipe =
     JArr [JObj [(''name'', JStr ''Water''), (''color'', JStr ''blue''), (''parts'', JInt 1)]]"

definition water_body :: json where
  "water_body = JObj [(''title'', JStr ''Water''), (''recipe'', water_recipe)]"

definition water_row :: drink where
  "water_row = \<lparr>id_pk = 1, title = JStr ''Water'', recipe = water_recipe\<rparr>"

definition tea_row :: drink where
  "tea_row = \<lparr>id_pk = 2, title = JStr ''Tea'',
     recipe = JArr [JObj [(''name'', JStr ''Tea''), (''color'', JStr ''green''), (''parts'', JInt 2)]]\<rparr>"

definition empty_store :: store where
  "empty_store = \<lparr>rows = [], available = True\<rparr>"

definition water_store :: store where
  "water_store = \<lparr>rows = [water_row], available = True\<rparr>"

definition two_drinks :: store where
  "two_drinks = \<lparr>rows = [water_row, tea_row], available = True\<rparr>"

text \<open>A drink whose one ingredient carries a further member, and one with the parts first.\<close>

definition iced_body :: json where
  "iced_body = JObj [(''title'', JStr ''Iced''),
     (''recipe'', JArr [JObj [(''name'', JStr ''Water''), (''color'', JStr ''blue''),
                              (''parts'', JInt 1), (''note'', JStr ''cold'')]])]"

definition iced_store :: store where
  "iced_store = \<lparr>rows = [\<lparr>id_pk = 1, title = JStr ''Iced'',
     recipe = JArr [JObj [(''name'', JStr ''Water''), (''color'', JStr ''blue''),
                          (''parts'', JInt 1), (''note'', JStr ''cold'')]]\<rparr>], available = True\<rparr>"

definition swapped_body :: json where
  "swapped_body = JObj [(''title'', JStr ''Swapped''),
     (''recipe'', JArr [JObj [(''name'', JStr ''Water''), (''parts'', JInt 1),
                              (''color'', JStr ''blue'')]])]"

definition swapped_store :: store where
  "swapped_store = \<lparr>rows = [\<lparr>id_pk = 1, title = JStr ''Swapped'',
     recipe = JArr [JObj [(''name'', JStr ''Water''), (''parts'', JInt 1),
                          (''color'', JStr ''blue'')]]\<rparr>], available = True\<rparr>"

lemmas example_defs =
  water_recipe_def water_body_def water_row_def tea_row_def empty_store_def water_store_def
  two_drinks_def iced_body_def iced_store_def swapped_body_def swapped_store_def

lemmas store_defs =
  digit_of_def path_key_def new_id_def query_all_def query_by_id_def insert_drink_def update_row_def
  delete_row_def

lemmas handler_defs =
  get_drinks_def get_drink_details_def post_drink_def update_drink_def delete_drink_def
  success_drinks_def success_delete_def error_occurred_def error_occured_def not_found_def
  bad_request_def long_def short_def short_recipe_def short_entry_def

section \<open>Facts about the store\<close>

lemma query_by_id_absent:
  assumes "available s" and "path_key drink_id \<notin> set (map (\<lambda>d. Some (id_pk d)) (rows s))"
  shows "query_by_id s drink_id = Inr None"
proof -
  have "filter (\<lambda>d. path_key drink_id = Some (id_pk d)) (rows s) = []"
    using assms(2) by (auto simp: filter_empty_conv)
  then show ?thesis using assms(1) by (simp add: query_by_id_def)
qed

lemma query_by_id_found:
  assumes "query_by_id s i = Inr (Some d)"
  shows "available s \<and> filter (\<lambda>r. id_pk r = id_pk d) (rows s) = [d]
       \<and> path_key i = Some (id_pk d)"
proof -
  from assms have a: "available s"
    by (simp add: query_by_id_def split: if_splits)
  from assms a have f: "filter (\<lambda>r. path_key i = Some (id_pk r)) (rows s) = [d]"
    by (simp add: query_by_id_def split: list.splits)
  then have "d \<in> set (filter (\<lambda>r. path_key i = Some (id_pk r)) (rows s))" by simp
  then have k: "path_key i = Some (id_pk d)" by simp
  have "filter (\<lambda>r. id_pk r = id_pk d) (rows s)
          = filter (\<lambda>r. path_key i = Some (id_pk r)) (rows s)"
    using k by (intro filter_cong) auto
  with f have "filter (\<lambda>r. id_pk r = id_pk d) (rows s) = [d]" by simp
  with a k show ?thesis by simp
qed

lemma query_by_id_unique:
  assumes "available s" and "path_key i = Some k" and "filter (\<lambda>r. id_pk r = k) (rows s) = [d]"
  shows "query_by_id s i = Inr (Some d)"
proof -
  have "filter (\<lambda>r. path_key i = Some (id_pk r)) (rows s)
          = filter (\<lambda>r. id_pk r = k) (rows s)"
    using assms(2) by (intro filter_cong) auto
  then show ?thesis using assms(1,3) by (simp add: query_by_id_def)
qed

lemma filter_id_replaced:
  "id_pk d' = k \<Longrightarrow>
   filter (\<lambda>r. id_pk r = k) (map (\<lambda>r. if id_pk r = k then d' else r) rs)
     = map (\<lambda>r. d') (filter (\<lambda>r. id_pk r = k) rs)"
  by (induction rs) auto

lemma update_row_stored:
  assumes q: "query_by_id s i = Inr (Some d)"
    and u: "update_row s (d\<lparr>title := t, recipe := r\<rparr>) = Inr s'"
  shows "query_by_id s' i = Inr (Some (d\<lparr>title := t, recipe := r\<rparr>))"
proof -
  from query_by_id_found [OF q]
  have a: "available s" and f: "filter (\<lambda>r. id_pk r = id_pk d) (rows s) = [d]"
    and k: "path_key i = Some (id_pk d)"
    by simp_all
  let ?d = "d\<lparr>title := t, recipe := r\<rparr>"
  have k': "id_pk ?d = id_pk d" by simp
  from u a have s': "s' = s\<lparr>rows := map (\<lambda>x. if id_pk x = id_pk d then ?d else x) (rows s)\<rparr>"
    by (simp add: update_row_def split: if_splits)
  have "filter (\<lambda>x. id_pk x = id_pk d) (rows s')
          = map (\<lambda>x. ?d) (filter (\<lambda>x. id_pk x = id_pk d) (rows s))"
    unfolding s' using filter_id_replaced [OF k'] by simp
  then have "filter (\<lambda>x. id_pk x = id_pk d) (rows s') = [?d]" using f by simp
  moreover have "available s'" using a s' by simp
  ultimately show ?thesis using k by (intro query_by_id_unique) simp_all
qed

lemma below_new_id: "r \<in> set rs \<Longrightarrow> id_pk r < new_id rs"
  unfolding new_id_def by (induction rs) auto

lemma new_id_fresh: "new_id rs \<notin> set (map id_pk rs)"
proof
  assume "new_id rs \<in> set (map id_pk rs)"
  then obtain r where "r \<in> set rs" and "id_pk r = new_id rs" by auto
  with below_new_id [of r rs] show False by simp
qed

lemma insert_keyed: "keyed s \<Longrightarrow> insert_drink s t r = Inr s' \<Longrightarrow> keyed s'"
  using new_id_fresh [of "rows s"]
  by (auto simp: keyed_def insert_drink_def split: if_splits)

lemma map_id_replaced:
  "map id_pk (map (\<lambda>r. if id_pk r = id_pk d then d else r) rs) = map id_pk rs"
  by (induction rs) auto

lemma titles_replaced:
  "distinct (map id_pk rs) \<Longrightarrow> distinct (map title rs) \<Longrightarrow>
   title d \<notin> set (map title (filter (\<lambda>r. id_pk r \<noteq> id_pk d) rs)) \<Longrightarrow>
   distinct (map title (map (\<lambda>r. if id_pk r = id_pk d then d else r) rs))"
proof (induction rs)
  case Nil
  then show ?case by simp
next
  case (Cons x xs)
  let ?f = "\<lambda>r. if id_pk r = id_pk d then d else r"
  from Cons have ih: "distinct (map title (map ?f xs))"
    by (auto split: if_splits)
  show ?case
  proof (cases "id_pk x = id_pk d")
    case True
    with Cons.prems(1) have others: "\<forall>r\<in>set xs. id_pk r \<noteq> id_pk d"
      by (auto simp: image_iff)
    then have same: "map ?f xs = xs" by (induction xs) auto
    have "filter (\<lambda>r. id_pk r \<noteq> id_pk d) xs = xs"
      using others by (induction xs) auto
    with Cons.prems(3) True have "title d \<notin> set (map title xs)" by simp
    with Cons.prems(2) True same show ?thesis by simp
  next
    case False
    have "title x \<notin> set (map title (map ?f xs))"
    proof
      assume "title x \<in> set (map title (map ?f xs))"
      then obtain y where y: "y \<in> set xs" and e: "title x = title (?f y)" by auto
      show False
      proof (cases "id_pk y = id_pk d")
        case True
        with e have "title x = title d" by simp
        with Cons.prems(3) False show False by simp
      next
        case False
        with e have "title x = title y" by simp
        with y Cons.prems(2) show False by (auto simp: image_iff)
      qed
    qed
    with ih False show ?thesis by simp
  qed
qed

lemma update_keyed: "keyed s \<Longrightarrow> update_row s d = Inr s' \<Longrightarrow> keyed s'"
  by (auto simp: keyed_def update_row_def map_id_replaced titles_replaced
           simp del: map_map split: if_splits)

lemma delete_keyed: "keyed s \<Longrightarrow> delete_row s d = Inr s' \<Longrightarrow> keyed s'"
  by (auto simp: keyed_def delete_row_def distinct_map_filter split: if_splits)

section \<open>Facts about the handlers\<close>

lemma get_drinks_store: "fst (get_drinks s) = s"
  by (simp add: get_drinks_def split: sum.splits)

lemma get_drink_details_store: "fst (get_drink_details jwt s) = s"
  by (simp add: get_drink_details_def split: sum.splits)

lemma post_drink_keyed: "keyed s \<Longrightarrow> keyed (fst (post_drink jwt s request))"
  by (auto simp: post_drink_def dest: insert_keyed split: sum.splits option.splits)

lemma update_drink_keyed: "keyed s \<Longrightarrow> keyed (fst (update_drink jwt s i request))"
  by (auto simp: update_drink_def dest: update_keyed split: sum.splits option.splits)

lemma delete_drink_keyed: "keyed s \<Longrightarrow> keyed (fst (delete_drink jwt s i))"
  by (auto simp: delete_drink_def dest: delete_keyed split: sum.splits option.splits)

lemma reachable_keyed: "reachable s \<Longrightarrow> keyed s"
proof (induction rule: reachable.induct)
  case (initial a)
  show ?case by (simp add: keyed_def)
next
  case (outage s a)
  then show ?case by (simp add: keyed_def)
next
  case (list_brief s)
  then show ?case by (simp add: get_drinks_store)
next
  case (list_detailed s jwt)
  then show ?case by (simp add: get_drink_details_store)
next
  case (created s jwt request)
  from created.IH show ?case by (rule post_drink_keyed)
next
  case (updated s jwt drink_id request)
  from updated.IH show ?case by (rule update_drink_keyed)
next
  case (deleted s jwt drink_id)
  from deleted.IH show ?case by (rule delete_drink_keyed)
qed

lemma post_drink_taken_title:
  assumes "dict_get data ''title'' = Inr t" and "t \<in> set (map title (rows s))"
  shows "post_drink jwt s (Parsed data) = (s, Response error_occured 500)"
proof -
  from assms(1) obtain kvs where "data = JObj kvs" by (cases data) auto
  then obtain r where r: "dict_get data ''recipe'' = Inr r" by auto
  have "\<exists>x. insert_drink s t r = Inl x" using assms(2) by (simp add: insert_drink_def)
  then show ?thesis using assms(1) r by (auto simp: post_drink_def)
qed

text \<open>A create that answers 200 has written one row, and lists the table with it.\<close>

lemma post_drink_ok:
  assumes "post_drink jwt s request = (s', Response b 200)"
  shows "\<exists>data t r. request = Parsed data \<and> dict_get data ''title'' = Inr t
           \<and> dict_get data ''recipe'' = Inr r \<and> available s \<and> t \<notin> set (map title (rows s))
           \<and> s' = s\<lparr>rows := rows s @ [\<lparr>id_pk = new_id (rows s), title = t, recipe = r\<rparr>]\<rparr>
           \<and> b = success_drinks (map long (rows s'))"
proof (cases request)
  case Unparsable
  with assms show ?thesis by (simp add: post_drink_def bad_request_def)
next
  case (Parsed data)
  with assms show ?thesis
    by (auto simp: post_drink_def insert_drink_def query_all_def
             split: sum.splits if_splits)
qed

lemma post_drink_created:
  assumes "available s" and "dict_get data ''title'' = Inr t"
    and "dict_get data ''recipe'' = Inr r" and "t \<notin> set (map title (rows s))"
  shows "post_drink jwt s (Parsed data)
       = (s\<lparr>rows := rows s @ [\<lparr>id_pk = new_id (rows s), title = t, recipe = r\<rparr>]\<rparr>,
          Response (success_drinks
            (map long (rows s) @ [long \<lparr>id_pk = new_id (rows s), title = t, recipe = r\<rparr>])) 200)"
  using assms by (simp add: post_drink_def insert_drink_def query_all_def)

text \<open>An update that answers 200 has replaced the row it found, and lists the table with it.\<close>

lemma update_drink_ok:
  assumes "update_drink jwt s i request = (s', Response b 200)"
  shows "\<exists>data d t r. request = Parsed data \<and> query_by_id s i = Inr (Some d)
           \<and> dict_get data ''title'' = Inr t \<and> dict_get data ''recipe'' = Inr r
           \<and> update_row s (d\<lparr>title := t, recipe := r\<rparr>) = Inr s'
           \<and> s' = s\<lparr>rows := map (\<lambda>x. if id_pk x = id_pk d then d\<lparr>title := t, recipe := r\<rparr> else x)
                                 (rows s)\<rparr>
           \<and> b = success_drinks (map long (rows s'))"
proof (cases request)
  case Unparsable
  with assms show ?thesis
    by (simp add: update_drink_def bad_request_def split: sum.splits)
next
  case (Parsed data)
  with assms show ?thesis
    by (auto simp: update_drink_def not_found_def query_all_def update_row_def
             split: sum.splits option.splits if_splits)
qed

lemma update_drink_updated:
  assumes "query_by_id s i = Inr (Some d)" and "dict_get data ''title'' = Inr t"
    and "dict_get data ''recipe'' = Inr r"
    and "t \<notin> set (map title (filter (\<lambda>x. id_pk x \<noteq> id_pk d) (rows s)))"
  shows "update_drink jwt s i (Parsed data)
       = (s\<lparr>rows := map (\<lambda>x. if id_pk x = id_pk d then d\<lparr>title := t, recipe := r\<rparr> else x) (rows s)\<rparr>,
          Response (success_drinks
            (map long (map (\<lambda>x. if id_pk x = id_pk d then d\<lparr>title := t, recipe := r\<rparr> else x)
                           (rows s)))) 200)"
proof -
  have a: "available s" using query_by_id_found [OF assms(1)] by simp
  show ?thesis using assms a
    by (simp add: update_drink_def update_row_def query_all_def)
qed

lemma delete_drink_found:
  assumes "query_by_id s i = Inr (Some d)"
  shows "delete_drink jwt s i =
           (s\<lparr>rows := filter (\<lambda>r. id_pk r \<noteq> id_pk d) (rows s)\<rparr>, Response (success_delete i) 200)"
  using assms query_by_id_found [OF assms]
  by (simp add: delete_drink_def delete_row_def)

section \<open>Facts about the projections\<close>

lemma map_of_filter_name:
  "k \<noteq> ''name'' \<Longrightarrow> map_of (filter (\<lambda>kv. fst kv \<noteq> ''name'') kvs) k = map_of kvs k"
  by (induction kvs) auto

lemma short_entry_spec:
  assumes "recipe_entry e"
  shows "short_entry e = Inr (drop_name e)"
proof -
  from assms obtain kvs where e: "e = JObj kvs" by (cases e) auto
  let ?F = "filter (\<lambda>kv. fst kv \<noteq> ''name'') kvs"
  from assms e have keys: "map fst ?F = [''color'', ''parts'']" by simp
  then obtain c p where F: "?F = [(''color'', c), (''parts'', p)]"
    by (auto simp: map_eq_Cons_conv)
  have "map_of kvs ''color'' = map_of ?F ''color''"
    by (simp add: map_of_filter_name)
  then have c: "map_of kvs ''color'' = Some c" unfolding F by simp
  have "map_of kvs ''parts'' = map_of ?F ''parts''"
    by (simp add: map_of_filter_name)
  then have p: "map_of kvs ''parts'' = Some p" unfolding F by simp
  show ?thesis using c p F e by (simp add: short_entry_def)
qed

lemma short_entries_spec:
  "list_all recipe_entry es \<Longrightarrow> short_entries es = Inr (map drop_name es)"
  by (induction es) (simp_all add: short_entry_spec)

lemma short_spec:
  assumes "recipe_sequence (recipe d)"
  shows "short d = Inr (without_names (long d))"
proof -
  from assms obtain es where r: "recipe d = JArr es" and es: "list_all recipe_entry es"
    by (cases "recipe d") auto
  show ?thesis
    by (simp add: short_def short_recipe_def long_def r short_entries_spec [OF es])
qed

lemma short_all_spec:
  "list_all (\<lambda>d. recipe_sequence (recipe d)) ds \<Longrightarrow>
   short_all ds = Inr (map without_names (map long ds))"
  by (induction ds) (simp_all add: short_spec)

section \<open>Facts about the gate\<close>










section \<open>The properties\<close>

text \<open>
  C1. For every store state and every request body, a success response of the create
  operation or of the update operation carries the whole collection as it is after the
  mutation, each drink in the detailed projection, and not the one affected resource
  alone. A create answers 200 exactly when the store answers, the body is an object and
  its title is free; the store then holds the old rows and the new one, and the response
  lists all of them. An update answers 200 exactly when the id is found, the body is an
  object and no other row holds its title; the store then holds the rows with the found
  one replaced, and the response lists all of them.
\<close>

theorem create_update_return_collection:
  "(post_drink jwt s request = (s', Response b 200) \<longrightarrow>
      (\<exists>data t r. request = Parsed data \<and> dict_get data ''title'' = Inr t
         \<and> dict_get data ''recipe'' = Inr r \<and> available s \<and> t \<notin> set (map title (rows s))
         \<and> s' = s\<lparr>rows := rows s @ [\<lparr>id_pk = new_id (rows s), title = t, recipe = r\<rparr>]\<rparr>
         \<and> b = JObj [(''success'', JBool True),
                     (''drinks'', JArr (map long (rows s)
                        @ [long \<lparr>id_pk = new_id (rows s), title = t, recipe = r\<rparr>]))]))
   \<and> (available s \<longrightarrow> dict_get data ''title'' = Inr t \<longrightarrow> dict_get data ''recipe'' = Inr r \<longrightarrow>
      t \<notin> set (map title (rows s)) \<longrightarrow>
        post_drink jwt s (Parsed data)
          = (s\<lparr>rows := rows s @ [\<lparr>id_pk = new_id (rows s), title = t, recipe = r\<rparr>]\<rparr>,
             Response (JObj [(''success'', JBool True),
                     (''drinks'', JArr (map long (rows s)
                        @ [long \<lparr>id_pk = new_id (rows s), title = t, recipe = r\<rparr>]))]) 200))
   \<and> (update_drink jwt s drink_id request' = (s'', Response b' 200) \<longrightarrow>
      (\<exists>data d t r. request' = Parsed data \<and> query_by_id s drink_id = Inr (Some d)
         \<and> dict_get data ''title'' = Inr t \<and> dict_get data ''recipe'' = Inr r
         \<and> t \<notin> set (map title (filter (\<lambda>x. id_pk x \<noteq> id_pk d) (rows s)))
         \<and> s'' = s\<lparr>rows := map (\<lambda>x. if id_pk x = id_pk d then d\<lparr>title := t, recipe := r\<rparr> else x)
                                 (rows s)\<rparr>
         \<and> query_by_id s'' drink_id = Inr (Some (d\<lparr>title := t, recipe := r\<rparr>))
         \<and> b' = JObj [(''success'', JBool True), (''drinks'', JArr (map long (rows s'')))]))
   \<and> (query_by_id s drink_id = Inr (Some d) \<longrightarrow> dict_get data' ''title'' = Inr t' \<longrightarrow>
      dict_get data' ''recipe'' = Inr r' \<longrightarrow>
      t' \<notin> set (map title (filter (\<lambda>x. id_pk x \<noteq> id_pk d) (rows s))) \<longrightarrow>
        update_drink jwt s drink_id (Parsed data')
          = (s\<lparr>rows := map (\<lambda>x. if id_pk x = id_pk d then d\<lparr>title := t', recipe := r'\<rparr> else x)
                            (rows s)\<rparr>,
             Response (JObj [(''success'', JBool True),
                     (''drinks'', JArr (map long
                        (map (\<lambda>x. if id_pk x = id_pk d then d\<lparr>title := t', recipe := r'\<rparr> else x)
                             (rows s))))]) 200))"
proof -
  have p1: "post_drink jwt s request = (s', Response b 200) \<longrightarrow>
      (\<exists>data t r. request = Parsed data \<and> dict_get data ''title'' = Inr t
         \<and> dict_get data ''recipe'' = Inr r \<and> available s \<and> t \<notin> set (map title (rows s))
         \<and> s' = s\<lparr>rows := rows s @ [\<lparr>id_pk = new_id (rows s), title = t, recipe = r\<rparr>]\<rparr>
         \<and> b = JObj [(''success'', JBool True),
                     (''drinks'', JArr (map long (rows s)
                        @ [long \<lparr>id_pk = new_id (rows s), title = t, recipe = r\<rparr>]))])"
  proof
    assume "post_drink jwt s request = (s', Response b 200)"
    from post_drink_ok [OF this] show "\<exists>data t r. request = Parsed data
         \<and> dict_get data ''title'' = Inr t
         \<and> dict_get data ''recipe'' = Inr r \<and> available s \<and> t \<notin> set (map title (rows s))
         \<and> s' = s\<lparr>rows := rows s @ [\<lparr>id_pk = new_id (rows s), title = t, recipe = r\<rparr>]\<rparr>
         \<and> b = JObj [(''success'', JBool True),
                     (''drinks'', JArr (map long (rows s)
                        @ [long \<lparr>id_pk = new_id (rows s), title = t, recipe = r\<rparr>]))]"
      by (auto simp: success_drinks_def)
  qed
  have p2: "available s \<longrightarrow> dict_get data ''title'' = Inr t \<longrightarrow> dict_get data ''recipe'' = Inr r \<longrightarrow>
      t \<notin> set (map title (rows s)) \<longrightarrow>
        post_drink jwt s (Parsed data)
          = (s\<lparr>rows := rows s @ [\<lparr>id_pk = new_id (rows s), title = t, recipe = r\<rparr>]\<rparr>,
             Response (JObj [(''success'', JBool True),
                     (''drinks'', JArr (map long (rows s)
                        @ [long \<lparr>id_pk = new_id (rows s), title = t, recipe = r\<rparr>]))]) 200)"
    using post_drink_created [of s data t r jwt] by (simp add: success_drinks_def)
  have u1: "update_drink jwt s drink_id request' = (s'', Response b' 200) \<longrightarrow>
      (\<exists>data d t r. request' = Parsed data \<and> query_by_id s drink_id = Inr (Some d)
         \<and> dict_get data ''title'' = Inr t \<and> dict_get data ''recipe'' = Inr r
         \<and> t \<notin> set (map title (filter (\<lambda>x. id_pk x \<noteq> id_pk d) (rows s)))
         \<and> s'' = s\<lparr>rows := map (\<lambda>x. if id_pk x = id_pk d then d\<lparr>title := t, recipe := r\<rparr> else x)
                                 (rows s)\<rparr>
         \<and> query_by_id s'' drink_id = Inr (Some (d\<lparr>title := t, recipe := r\<rparr>))
         \<and> b' = JObj [(''success'', JBool True), (''drinks'', JArr (map long (rows s'')))])"
  proof
    assume "update_drink jwt s drink_id request' = (s'', Response b' 200)"
    from update_drink_ok [OF this] obtain data d t r where
      rq: "request' = Parsed data" and q: "query_by_id s drink_id = Inr (Some d)"
      and t: "dict_get data ''title'' = Inr t" and r: "dict_get data ''recipe'' = Inr r"
      and u: "update_row s (d\<lparr>title := t, recipe := r\<rparr>) = Inr s''"
      and s'': "s'' = s\<lparr>rows := map (\<lambda>x. if id_pk x = id_pk d then d\<lparr>title := t, recipe := r\<rparr> else x)
                                 (rows s)\<rparr>"
      and b': "b' = success_drinks (map long (rows s''))"
      by blast
    have free: "t \<notin> set (map title (filter (\<lambda>x. id_pk x \<noteq> id_pk d) (rows s)))"
      using u by (auto simp: update_row_def split: if_splits)
    have st: "query_by_id s'' drink_id = Inr (Some (d\<lparr>title := t, recipe := r\<rparr>))"
      by (rule update_row_stored [OF q u])
    from rq q t r free s'' st b'
    show "\<exists>data d t r. request' = Parsed data \<and> query_by_id s drink_id = Inr (Some d)
         \<and> dict_get data ''title'' = Inr t \<and> dict_get data ''recipe'' = Inr r
         \<and> t \<notin> set (map title (filter (\<lambda>x. id_pk x \<noteq> id_pk d) (rows s)))
         \<and> s'' = s\<lparr>rows := map (\<lambda>x. if id_pk x = id_pk d then d\<lparr>title := t, recipe := r\<rparr> else x)
                                 (rows s)\<rparr>
         \<and> query_by_id s'' drink_id = Inr (Some (d\<lparr>title := t, recipe := r\<rparr>))
         \<and> b' = JObj [(''success'', JBool True), (''drinks'', JArr (map long (rows s'')))]"
      unfolding success_drinks_def by blast
  qed
  have u2: "query_by_id s drink_id = Inr (Some d) \<longrightarrow> dict_get data' ''title'' = Inr t' \<longrightarrow>
      dict_get data' ''recipe'' = Inr r' \<longrightarrow>
      t' \<notin> set (map title (filter (\<lambda>x. id_pk x \<noteq> id_pk d) (rows s))) \<longrightarrow>
        update_drink jwt s drink_id (Parsed data')
          = (s\<lparr>rows := map (\<lambda>x. if id_pk x = id_pk d then d\<lparr>title := t', recipe := r'\<rparr> else x)
                            (rows s)\<rparr>,
             Response (JObj [(''success'', JBool True),
                     (''drinks'', JArr (map long
                        (map (\<lambda>x. if id_pk x = id_pk d then d\<lparr>title := t', recipe := r'\<rparr> else x)
                             (rows s))))]) 200)"
    using update_drink_updated [of s drink_id d data' t' r' jwt]
    by (simp add: success_drinks_def del: map_map)
  from p1 p2 u1 u2 show ?thesis by blast
qed

theorem create_update_return_collection_witness:
  "post_drink [''post:drinks''] water_store
        (Parsed (JObj [(''title'', JStr ''Tea''), (''recipe'', recipe tea_row)]))
      = (water_store\<lparr>rows := rows water_store
            @ [\<lparr>id_pk = new_id (rows water_store), title = JStr ''Tea'', recipe = recipe tea_row\<rparr>]\<rparr>,
         Response (JObj [(''success'', JBool True),
            (''drinks'', JArr (map long (rows water_store)
               @ [long \<lparr>id_pk = new_id (rows water_store), title = JStr ''Tea'',
                        recipe = recipe tea_row\<rparr>]))]) 200)
   \<and> water_store\<lparr>rows := rows water_store
         @ [\<lparr>id_pk = new_id (rows water_store), title = JStr ''Tea'', recipe = recipe tea_row\<rparr>]\<rparr>
       = two_drinks
   \<and> update_drink [''patch:drinks''] two_drinks ''2'' (Parsed (JObj [(''title'', JStr ''Chai'')]))
      = (two_drinks\<lparr>rows := map (\<lambda>x. if id_pk x = id_pk tea_row
                                       then tea_row\<lparr>title := JStr ''Chai'', recipe := JNull\<rparr> else x)
                                  (rows two_drinks)\<rparr>,
         Response (JObj [(''success'', JBool True),
            (''drinks'', JArr (map long
               (map (\<lambda>x. if id_pk x = id_pk tea_row
                          then tea_row\<lparr>title := JStr ''Chai'', recipe := JNull\<rparr> else x)
                    (rows two_drinks))))]) 200)
   \<and> map (\<lambda>x. if id_pk x = id_pk tea_row
                 then tea_row\<lparr>title := JStr ''Chai'', recipe := JNull\<rparr> else x) (rows two_drinks)
       = [water_row, \<lparr>id_pk = 2, title = JStr ''Chai'', recipe = JNull\<rparr>]"
proof -
  have a: "available water_store" by (simp add: example_defs)
  have t: "dict_get (JObj [(''title'', JStr ''Tea''), (''recipe'', recipe tea_row)]) ''title''
             = Inr (JStr ''Tea'')" by simp
  have r: "dict_get (JObj [(''title'', JStr ''Tea''), (''recipe'', recipe tea_row)]) ''recipe''
             = Inr (recipe tea_row)" by simp
  have f: "JStr ''Tea'' \<notin> set (map title (rows water_store))" by (simp add: example_defs)
  have q: "query_by_id two_drinks ''2'' = Inr (Some tea_row)"
    by (simp add: example_defs store_defs)
  have t': "dict_get (JObj [(''title'', JStr ''Chai'')]) ''title'' = Inr (JStr ''Chai'')" by simp
  have r': "dict_get (JObj [(''title'', JStr ''Chai'')]) ''recipe'' = Inr JNull" by simp
  have f': "JStr ''Chai'' \<notin> set (map title (filter (\<lambda>x. id_pk x \<noteq> id_pk tea_row) (rows two_drinks)))"
    by (simp add: example_defs)
  have c: "post_drink [''post:drinks''] water_store
        (Parsed (JObj [(''title'', JStr ''Tea''), (''recipe'', recipe tea_row)]))
      = (water_store\<lparr>rows := rows water_store
            @ [\<lparr>id_pk = new_id (rows water_store), title = JStr ''Tea'', recipe = recipe tea_row\<rparr>]\<rparr>,
         Response (JObj [(''success'', JBool True),
            (''drinks'', JArr (map long (rows water_store)
               @ [long \<lparr>id_pk = new_id (rows water_store), title = JStr ''Tea'',
                        recipe = recipe tea_row\<rparr>]))]) 200)"
    using create_update_return_collection
      [of "[''post:drinks'']" water_store _ _ _
          "JObj [(''title'', JStr ''Tea''), (''recipe'', recipe tea_row)]"
          "JStr ''Tea''" "recipe tea_row"] a t r f
    by blast
  have c': "water_store\<lparr>rows := rows water_store
         @ [\<lparr>id_pk = new_id (rows water_store), title = JStr ''Tea'', recipe = recipe tea_row\<rparr>]\<rparr>
       = two_drinks"
    by (simp add: example_defs new_id_def)
  have u: "update_drink [''patch:drinks''] two_drinks ''2'' (Parsed (JObj [(''title'', JStr ''Chai'')]))
      = (two_drinks\<lparr>rows := map (\<lambda>x. if id_pk x = id_pk tea_row
                                       then tea_row\<lparr>title := JStr ''Chai'', recipe := JNull\<rparr> else x)
                                  (rows two_drinks)\<rparr>,
         Response (JObj [(''success'', JBool True),
            (''drinks'', JArr (map long
               (map (\<lambda>x. if id_pk x = id_pk tea_row
                          then tea_row\<lparr>title := JStr ''Chai'', recipe := JNull\<rparr> else x)
                    (rows two_drinks))))]) 200)"
    using create_update_return_collection
      [of "[''patch:drinks'']" two_drinks _ _ _ _ _ _ "''2''" _ _ _ tea_row
          "JObj [(''title'', JStr ''Chai'')]" "JStr ''Chai''" JNull] q t' r' f'
    by blast
  have u': "map (\<lambda>x. if id_pk x = id_pk tea_row
                 then tea_row\<lparr>title := JStr ''Chai'', recipe := JNull\<rparr> else x) (rows two_drinks)
       = [water_row, \<lparr>id_pk = 2, title = JStr ''Chai'', recipe = JNull\<rparr>]"
    by (simp add: example_defs)
  from c c' u u' show ?thesis by (intro conjI)
qed

text \<open>
  C2, as amended. For every existing resource id, an update request that succeeds
  (status 200) and whose body, a JSON object, omits the title or the recipe leaves that
  field null in the stored row, whatever was stored there before.
\<close>

theorem update_omitted_field_is_null:
  assumes "update_drink jwt s drink_id (Parsed (JObj kvs)) = (s', Response b 200)"
  shows "(map_of kvs ''title'' = None \<longrightarrow>
            (\<exists>d. query_by_id s' drink_id = Inr (Some d) \<and> title d = JNull))
       \<and> (map_of kvs ''recipe'' = None \<longrightarrow>
            (\<exists>d. query_by_id s' drink_id = Inr (Some d) \<and> recipe d = JNull))"
proof -
  from update_drink_ok [OF assms] obtain d t r where
    q: "query_by_id s drink_id = Inr (Some d)"
    and t: "dict_get (JObj kvs) ''title'' = Inr t"
    and r: "dict_get (JObj kvs) ''recipe'' = Inr r"
    and u: "update_row s (d\<lparr>title := t, recipe := r\<rparr>) = Inr s'"
    by blast
  have st: "query_by_id s' drink_id = Inr (Some (d\<lparr>title := t, recipe := r\<rparr>))"
    by (rule update_row_stored [OF q u])
  have "map_of kvs ''title'' = None \<longrightarrow> t = JNull" using t by auto
  moreover have "map_of kvs ''recipe'' = None \<longrightarrow> r = JNull" using r by auto
  ultimately show ?thesis using st by auto
qed

theorem update_omitted_field_is_null_witness:
  "query_by_id water_store ''1'' = Inr (Some water_row)
   \<and> title water_row = JStr ''Water'' \<and> recipe water_row = water_recipe
   \<and> update_drink [''patch:drinks''] water_store ''1'' (Parsed (JObj []))
     = (\<lparr>rows = [\<lparr>id_pk = 1, title = JNull, recipe = JNull\<rparr>], available = True\<rparr>,
        Response (JObj [(''success'', JBool True),
          (''drinks'', JArr [long \<lparr>id_pk = 1, title = JNull, recipe = JNull\<rparr>])]) 200)
   \<and> (\<exists>d. query_by_id \<lparr>rows = [\<lparr>id_pk = 1, title = JNull, recipe = JNull\<rparr>], available = True\<rparr> ''1''
             = Inr (Some d) \<and> title d = JNull)
   \<and> (\<exists>d. query_by_id \<lparr>rows = [\<lparr>id_pk = 1, title = JNull, recipe = JNull\<rparr>], available = True\<rparr> ''1''
             = Inr (Some d) \<and> recipe d = JNull)"
proof -
  have u: "update_drink [''patch:drinks''] water_store ''1'' (Parsed (JObj []))
     = (\<lparr>rows = [\<lparr>id_pk = 1, title = JNull, recipe = JNull\<rparr>], available = True\<rparr>,
        Response (JObj [(''success'', JBool True),
          (''drinks'', JArr [long \<lparr>id_pk = 1, title = JNull, recipe = JNull\<rparr>])]) 200)"
    by (simp add: example_defs store_defs handler_defs)
  have q: "query_by_id water_store ''1'' = Inr (Some water_row)"
    by (simp add: example_defs store_defs)
  have f: "title water_row = JStr ''Water'' \<and> recipe water_row = water_recipe"
    by (simp add: water_row_def)
  from update_omitted_field_is_null [OF u] q f u show ?thesis by simp
qed

theorem update_rejected_keeps_field:
  "query_by_id two_drinks ''2'' = Inr (Some tea_row)
   \<and> map_of [(''title'', JStr ''Water'')] ''recipe'' = None
   \<and> update_drink [''patch:drinks''] two_drinks ''2'' (Parsed (JObj [(''title'', JStr ''Water'')]))
     = (two_drinks, Response (JObj [(''success'', JBool False),
          (''error'', JStr ''An error occured'')]) 500)
   \<and> query_by_id
         (fst (update_drink [''patch:drinks''] two_drinks ''2''
                 (Parsed (JObj [(''title'', JStr ''Water'')])))) ''2''
     = Inr (Some tea_row)
   \<and> recipe tea_row \<noteq> JNull"
  by (simp add: example_defs store_defs handler_defs)

text \<open>
  C3. In every reachable store state the titles are unique across all stored resources.
  In particular a create operation whose title is the title of an existing resource
  answers 500, and the store afterwards holds no two resources with the same title.
\<close>

theorem titles_unique:
  assumes "reachable s"
  shows "distinct (map title (rows s))
       \<and> (dict_get data ''title'' = Inr t \<longrightarrow> t \<in> set (map title (rows s)) \<longrightarrow>
            status_of (snd (post_drink jwt s (Parsed data))) = Some 500
          \<and> distinct (map title (rows (fst (post_drink jwt s (Parsed data))))))"
proof -
  have k: "distinct (map title (rows s))"
    using reachable_keyed [OF assms] by (simp add: keyed_def)
  show ?thesis using k by (auto simp: post_drink_taken_title)
qed

theorem titles_unique_witness:
  "reachable water_store
   \<and> dict_get water_body ''title'' = Inr (JStr ''Water'')
   \<and> JStr ''Water'' \<in> set (map title (rows water_store))
   \<and> distinct (map title (rows water_store))
   \<and> status_of (snd (post_drink [''post:drinks''] water_store (Parsed water_body))) = Some 500
   \<and> distinct (map title (rows (fst (post_drink [''post:drinks''] water_store (Parsed water_body)))))"
proof -
  have "fst (post_drink [''post:drinks''] \<lparr>rows = [], available = True\<rparr> (Parsed water_body))
          = water_store"
    by (simp add: example_defs store_defs handler_defs)
  moreover have "reachable (fst (post_drink [''post:drinks''] \<lparr>rows = [], available = True\<rparr>
                                   (Parsed water_body)))"
    by (rule reachable.created, rule reachable.initial)
  ultimately have r: "reachable water_store" by simp
  have g: "dict_get water_body ''title'' = Inr (JStr ''Water'')"
    by (simp add: example_defs)
  have m: "JStr ''Water'' \<in> set (map title (rows water_store))"
    by (simp add: example_defs)
  from titles_unique [OF r, of water_body "JStr ''Water''" "[''post:drinks'']"] r g m
  show ?thesis by simp
qed

text \<open>
  C4, as amended. For every id that is not present in a store that answers, the update
  operation leaves every row of the store as it was; it answers 404 when the body of the
  request parses, and 400 when it does not, the body being read before the id is tested.
\<close>

theorem update_absent_id_404:
  assumes "available s" and "path_key drink_id \<notin> set (map (\<lambda>d. Some (id_pk d)) (rows s))"
  shows "update_drink jwt s drink_id (Parsed data) = (s, not_found)
       \<and> status_of not_found = Some 404
       \<and> update_drink jwt s drink_id Unparsable = (s, bad_request)
       \<and> status_of bad_request = Some 400"
  using query_by_id_absent [OF assms]
  by (simp add: update_drink_def not_found_def bad_request_def)

theorem update_absent_id_404_witness:
  "available water_store \<and> path_key ''7'' \<notin> set (map (\<lambda>d. Some (id_pk d)) (rows water_store))
   \<and> update_drink [''patch:drinks''] water_store ''7'' (Parsed (JObj [(''title'', JStr ''Tea'')]))
     = (water_store, not_found)
   \<and> status_of not_found = Some 404
   \<and> update_drink [''patch:drinks''] water_store ''7'' Unparsable = (water_store, bad_request)
   \<and> status_of bad_request = Some 400"
proof -
  have a: "available water_store" by (simp add: example_defs)
  have n: "path_key ''7'' \<notin> set (map (\<lambda>d. Some (id_pk d)) (rows water_store))"
    by (simp add: example_defs path_key_def digit_of_def)
  from update_absent_id_404 [OF a n] a n show ?thesis by simp
qed

theorem update_absent_id_unparsable:
  "available water_store
   \<and> path_key ''7'' = Some 7 \<and> map id_pk (rows water_store) = [1]
   \<and> update_drink [''patch:drinks''] water_store ''7'' Unparsable
     = (water_store,
        Response (JObj [(''success'', JBool False), (''error'', JInt 400),
                        (''message'', JStr ''Bad request'')]) 400)"
  by (simp add: example_defs store_defs handler_defs)

text \<open>
  C5. For every id that is not present in the store, the delete operation answers 404
  and leaves every row of the store as it was.
\<close>

theorem delete_absent_id_404:
  assumes "available s" and "path_key drink_id \<notin> set (map (\<lambda>d. Some (id_pk d)) (rows s))"
  shows "delete_drink jwt s drink_id = (s, not_found) \<and> status_of not_found = Some 404"
  using query_by_id_absent [OF assms] by (simp add: delete_drink_def not_found_def)

theorem delete_absent_id_404_witness:
  "available two_drinks \<and> path_key ''3'' \<notin> set (map (\<lambda>d. Some (id_pk d)) (rows two_drinks))
   \<and> delete_drink [''delete:drinks''] two_drinks ''3'' = (two_drinks, not_found)
   \<and> status_of not_found = Some 404"
proof -
  have a: "available two_drinks" by (simp add: example_defs)
  have n: "path_key ''3'' \<notin> set (map (\<lambda>d. Some (id_pk d)) (rows two_drinks))"
    by (simp add: example_defs path_key_def digit_of_def)
  from delete_absent_id_404 [OF a n] a n show ?thesis by simp
qed

text \<open>
  C6. A delete of an id that is present answers 200 and removes the record, and no list
  shows the id afterwards; the body, though, carries under \<^verbatim>\<open>delete\<close> the path segment of
  the request as a string, and not the id of the deleted record, which is a number.
  Shown on the deletion of the drink with id 1 through the paths \<^verbatim>\<open>/drinks/1\<close> and
  \<^verbatim>\<open>/drinks/01\<close>.
\<close>

theorem delete_echoes_path_segment:
  "query_by_id two_drinks ''1'' = Inr (Some water_row) \<and> id_pk water_row = 1
   \<and> delete_drink [''delete:drinks''] two_drinks ''1''
     = (\<lparr>rows = [tea_row], available = True\<rparr>,
        Response (JObj [(''success'', JBool True), (''delete'', JStr ''1'')]) 200)
   \<and> JObj [(''success'', JBool True), (''delete'', JStr ''1'')]
       \<noteq> JObj [(''success'', JBool True), (''delete'', JInt (int (id_pk water_row)))]
   \<and> delete_drink [''delete:drinks''] two_drinks ''01''
     = (\<lparr>rows = [tea_row], available = True\<rparr>,
        Response (JObj [(''success'', JBool True), (''delete'', JStr ''01'')]) 200)
   \<and> listed_ids (snd (get_drinks two_drinks)) = [Some (JInt 1), Some (JInt 2)]
   \<and> listed_ids (snd (get_drinks (fst (delete_drink [''delete:drinks''] two_drinks ''1''))))
       = [Some (JInt 2)]"
  by (simp add: example_defs store_defs handler_defs listed_ids_def)

text \<open>
  C7. On a failure of the store the two list operations answer 500 with the body
  \<^verbatim>\<open>{success: false, error: "An error occurred"}\<close>, while create, update and delete
  answer 500 with the message spelled \<^verbatim>\<open>An error occured\<close>, which is another body. Shown
  on a create whose title is taken, which the store rejects, and on a list from a store
  that does not answer.
\<close>

theorem create_failure_message:
  "post_drink [''post:drinks''] water_store (Parsed water_body)
     = (water_store,
        Response (JObj [(''success'', JBool False), (''error'', JStr ''An error occured'')]) 500)
   \<and> JObj [(''success'', JBool False), (''error'', JStr ''An error occured'')]
       \<noteq> JObj [(''success'', JBool False), (''error'', JStr ''An error occurred'')]
   \<and> get_drinks (water_store\<lparr>available := False\<rparr>)
     = (water_store\<lparr>available := False\<rparr>,
        Response (JObj [(''success'', JBool False), (''error'', JStr ''An error occurred'')]) 500)"
  by (simp add: example_defs store_defs handler_defs)

text \<open>
  C8, as amended. For every store in which every recipe is a sequence of entries whose
  members other than the name are exactly the colour followed by the parts, the public
  list operation answers what the detailed list operation answers with the name removed
  from each recipe entry: the same status, the same drinks in the same order, each with
  its id and title, each recipe with its entries in their order. A store that answers
  gives both lists with status 200.
\<close>

theorem brief_is_detailed_without_names:
  assumes "list_all (\<lambda>d. recipe_sequence (recipe d)) (rows s)"
  shows "snd (get_drinks s) = names_removed (snd (get_drink_details jwt s))
       \<and> (available s \<longrightarrow>
            snd (get_drink_details jwt s) = Response (success_drinks (map long (rows s))) 200
          \<and> snd (get_drinks s)
              = Response (success_drinks (map without_names (map long (rows s)))) 200)"
  using short_all_spec [OF assms]
  by (simp add: get_drinks_def get_drink_details_def query_all_def success_drinks_def
        error_occurred_def)

theorem brief_is_detailed_without_names_witness:
  "available water_store \<and> list_all (\<lambda>d. recipe_sequence (recipe d)) (rows water_store)
   \<and> snd (get_drinks water_store)
       = names_removed (snd (get_drink_details [''get:drinks-detail''] water_store))
   \<and> snd (get_drink_details [''get:drinks-detail''] water_store)
     = Response (JObj [(''success'', JBool True), (''drinks'', JArr [
         JObj [(''id'', JInt 1), (''title'', JStr ''Water''),
               (''recipe'', JArr [JObj [(''name'', JStr ''Water''), (''color'', JStr ''blue''),
                                        (''parts'', JInt 1)]])]])]) 200
   \<and> snd (get_drinks water_store)
     = Response (JObj [(''success'', JBool True), (''drinks'', JArr [
         JObj [(''id'', JInt 1), (''title'', JStr ''Water''),
               (''recipe'', JArr [JObj [(''color'', JStr ''blue''), (''parts'', JInt 1)]])]])]) 200"
proof -
  have a: "available water_store" by (simp add: example_defs)
  have w: "list_all (\<lambda>d. recipe_sequence (recipe d)) (rows water_store)"
    by (simp add: example_defs)
  have d: "snd (get_drink_details [''get:drinks-detail''] water_store)
     = Response (JObj [(''success'', JBool True), (''drinks'', JArr [
         JObj [(''id'', JInt 1), (''title'', JStr ''Water''),
               (''recipe'', JArr [JObj [(''name'', JStr ''Water''), (''color'', JStr ''blue''),
                                        (''parts'', JInt 1)]])]])]) 200"
    by (simp add: example_defs store_defs handler_defs)
  from brief_is_detailed_without_names [OF w, of "[''get:drinks-detail'']"] a w d
  show ?thesis by (simp add: example_defs success_drinks_def long_def)
qed

theorem brief_drops_further_members:
  "post_drink [''post:drinks''] empty_store (Parsed iced_body)
     = (iced_store, Response (JObj [(''success'', JBool True), (''drinks'', JArr [
          JObj [(''id'', JInt 1), (''title'', JStr ''Iced''),
                (''recipe'', JArr [JObj [(''name'', JStr ''Water''), (''color'', JStr ''blue''),
                                         (''parts'', JInt 1), (''note'', JStr ''cold'')]])]])]) 200)
   \<and> snd (get_drink_details [''get:drinks-detail''] iced_store)
     = Response (JObj [(''success'', JBool True), (''drinks'', JArr [
          JObj [(''id'', JInt 1), (''title'', JStr ''Iced''),
                (''recipe'', JArr [JObj [(''name'', JStr ''Water''), (''color'', JStr ''blue''),
                                         (''parts'', JInt 1), (''note'', JStr ''cold'')]])]])]) 200
   \<and> names_removed (snd (get_drink_details [''get:drinks-detail''] iced_store))
     = Response (JObj [(''success'', JBool True), (''drinks'', JArr [
          JObj [(''id'', JInt 1), (''title'', JStr ''Iced''),
                (''recipe'', JArr [JObj [(''color'', JStr ''blue''), (''parts'', JInt 1),
                                         (''note'', JStr ''cold'')]])]])]) 200
   \<and> snd (get_drinks iced_store)
     = Response (JObj [(''success'', JBool True), (''drinks'', JArr [
          JObj [(''id'', JInt 1), (''title'', JStr ''Iced''),
                (''recipe'', JArr [JObj [(''color'', JStr ''blue''), (''parts'', JInt 1)]])]])]) 200
   \<and> snd (get_drinks iced_store)
       \<noteq> names_removed (snd (get_drink_details [''get:drinks-detail''] iced_store))
   \<and> fst (post_drink [''post:drinks''] empty_store (Parsed swapped_body)) = swapped_store
   \<and> names_removed (snd (get_drink_details [''get:drinks-detail''] swapped_store))
     = Response (JObj [(''success'', JBool True), (''drinks'', JArr [
          JObj [(''id'', JInt 1), (''title'', JStr ''Swapped''),
                (''recipe'', JArr [JObj [(''parts'', JInt 1), (''color'', JStr ''blue'')]])]])]) 200
   \<and> snd (get_drinks swapped_store)
     = Response (JObj [(''success'', JBool True), (''drinks'', JArr [
          JObj [(''id'', JInt 1), (''title'', JStr ''Swapped''),
                (''recipe'', JArr [JObj [(''color'', JStr ''blue''), (''parts'', JInt 1)]])]])]) 200"
  by (simp add: example_defs store_defs handler_defs)



text \<open>
  C10. For every id present in the store, a delete removes the one row with that id: the
  rows that stay are the other rows, in their order and with their id, title and recipe
  as they were, the table is one row shorter, and no row is added.
\<close>

theorem delete_frame:
  assumes "query_by_id s drink_id = Inr (Some d)"
  shows "path_key drink_id = Some (id_pk d)
       \<and> rows (fst (delete_drink jwt s drink_id)) = filter (\<lambda>r. id_pk r \<noteq> id_pk d) (rows s)
       \<and> length (rows s) = Suc (length (rows (fst (delete_drink jwt s drink_id))))
       \<and> set (rows (fst (delete_drink jwt s drink_id))) = set (rows s) - {d}"
proof -
  have f: "filter (\<lambda>r. id_pk r = id_pk d) (rows s) = [d]"
    and k: "path_key drink_id = Some (id_pk d)"
    using query_by_id_found [OF assms] by simp_all
  have r: "rows (fst (delete_drink jwt s drink_id)) = filter (\<lambda>r. id_pk r \<noteq> id_pk d) (rows s)"
    by (simp add: delete_drink_found [OF assms])
  have "length (filter (\<lambda>r. id_pk r = id_pk d) (rows s))
          + length (filter (\<lambda>r. \<not> id_pk r = id_pk d) (rows s)) = length (rows s)"
    by (rule sum_length_filter_compl)
  with f have n: "length (rows s) = Suc (length (filter (\<lambda>r. id_pk r \<noteq> id_pk d) (rows s)))"
    by simp
  have "set (filter (\<lambda>r. id_pk r = id_pk d) (rows s)) = {d}" using f by simp
  then have "{r \<in> set (rows s). id_pk r = id_pk d} = {d}" by simp
  then have "set (filter (\<lambda>r. id_pk r \<noteq> id_pk d) (rows s)) = set (rows s) - {d}"
    by auto
  with k r n show ?thesis by simp
qed

theorem delete_frame_witness:
  "query_by_id two_drinks ''1'' = Inr (Some water_row)
   \<and> rows two_drinks = [water_row, tea_row]
   \<and> rows (fst (delete_drink [''delete:drinks''] two_drinks ''1'')) = [tea_row]
   \<and> length (rows two_drinks)
       = Suc (length (rows (fst (delete_drink [''delete:drinks''] two_drinks ''1''))))"
proof -
  have q: "query_by_id two_drinks ''1'' = Inr (Some water_row)"
    by (simp add: example_defs store_defs)
  have t: "rows two_drinks = [water_row, tea_row]" by (simp add: two_drinks_def)
  have i: "id_pk water_row = 1" and j: "id_pk tea_row = 2"
    by (simp_all add: water_row_def tea_row_def)
  note frame = delete_frame [OF q, of "[''delete:drinks'']"]
  from frame have "rows (fst (delete_drink [''delete:drinks''] two_drinks ''1''))
      = filter (\<lambda>r. id_pk r \<noteq> id_pk water_row) (rows two_drinks)"
    by (rule conjunct1 [OF conjunct2])
  then have r: "rows (fst (delete_drink [''delete:drinks''] two_drinks ''1'')) = [tea_row]"
    by (simp add: t i j)
  from frame have n: "length (rows two_drinks)
       = Suc (length (rows (fst (delete_drink [''delete:drinks''] two_drinks ''1''))))"
    by (rule conjunct1 [OF conjunct2 [OF conjunct2]])
  from q t r n show ?thesis by (intro conjI)
qed

end
